theory Spec2Isabelle
  imports Complex_Main "HOL-Library.Word"
begin

section \<open>The FPS-roll view controller of rviz\<close>

text \<open>
  A shallow embedding of \<^verbatim>\<open>fps_roll_view_controller.cpp\<close>.  The C++ \<^verbatim>\<open>float\<close>s are
  idealised as real numbers, so \<^verbatim>\<open>Ogre::Math::PI\<close> is \<open>pi\<close> and rounding is not modelled; the
  C++ \<^verbatim>\<open>int\<close>s are 32-bit words.  The controller object is a record that every method takes
  and returns.
\<close>

subsection \<open>Vectors, quaternions and the rendering engine\<close>

record Vector3 =
  vx :: real
  vy :: real
  vz :: real

record Quaternion =
  qw :: real
  qx :: real
  qy :: real
  qz :: real

definition Vec :: "real \<Rightarrow> real \<Rightarrow> real \<Rightarrow> Vector3" where
  "Vec a b c = \<lparr>vx = a, vy = b, vz = c\<rparr>"

definition UNIT_X :: Vector3 where "UNIT_X = Vec 1 0 0"
definition UNIT_Y :: Vector3 where "UNIT_Y = Vec 0 1 0"
definition UNIT_Z :: Vector3 where "UNIT_Z = Vec 0 0 1"
definition NEGATIVE_UNIT_Z :: Vector3 where "NEGATIVE_UNIT_Z = Vec 0 0 (- 1)"

definition dotProduct :: "Vector3 \<Rightarrow> Vector3 \<Rightarrow> real" where
  "dotProduct a b = vx a * vx b + vy a * vy b + vz a * vz b"

definition vadd :: "Vector3 \<Rightarrow> Vector3 \<Rightarrow> Vector3" where
  "vadd a b = Vec (vx a + vx b) (vy a + vy b) (vz a + vz b)"

definition vsub :: "Vector3 \<Rightarrow> Vector3 \<Rightarrow> Vector3" where
  "vsub a b = Vec (vx a - vx b) (vy a - vy b) (vz a - vz b)"

definition crossProduct :: "Vector3 \<Rightarrow> Vector3 \<Rightarrow> Vector3" where
  "crossProduct a b =
     Vec (vy a * vz b - vz a * vy b) (vz a * vx b - vx a * vz b) (vx a * vy b - vy a * vx b)"

definition vscale :: "real \<Rightarrow> Vector3 \<Rightarrow> Vector3" where
  "vscale k a = Vec (k * vx a) (k * vy a) (k * vz a)"

text \<open>The default-constructed \<^verbatim>\<open>Ogre::Quaternion\<close> is the identity rotation.\<close>

definition Quaternion_default :: Quaternion where
  "Quaternion_default = \<lparr>qw = 1, qx = 0, qy = 0, qz = 0\<rparr>"

definition HALF_PI :: real where "HALF_PI = pi / 2"
definition PI :: real where "PI = pi"

text \<open>
  The quaternion operations of the rendering engine are not part of this repository.  They
  are a parameter of every method that calls them: \<open>qmul\<close> is \<^verbatim>\<open>Quaternion::operator*\<close> on
  quaternions, \<open>qrotate\<close> is \<^verbatim>\<open>Quaternion::operator*\<close> on a vector, \<open>AngleAxis\<close> is the
  constructor \<^verbatim>\<open>Quaternion(Radian, Vector3)\<close> and \<^verbatim>\<open>FromAngleAxis\<close>, and the three angle
  readers are \<^verbatim>\<open>getRoll(false)\<close>, \<^verbatim>\<open>getYaw(false)\<close> and \<^verbatim>\<open>getPitch(false)\<close> in radians.
\<close>

record engine =
  qmul :: "Quaternion \<Rightarrow> Quaternion \<Rightarrow> Quaternion"
  Inverse :: "Quaternion \<Rightarrow> Quaternion"
  qrotate :: "Quaternion \<Rightarrow> Vector3 \<Rightarrow> Vector3"
  AngleAxis :: "real \<Rightarrow> Vector3 \<Rightarrow> Quaternion"
  getRoll :: "Quaternion \<Rightarrow> real"
  getYaw :: "Quaternion \<Rightarrow> real"
  getPitch :: "Quaternion \<Rightarrow> real"

text \<open>
  The camera is owned by the engine; the controller reads and writes its pose, which is
  relative to the scene node the camera is attached to.
\<close>

record Camera =
  cam_position :: Vector3
  cam_orientation :: Quaternion

subsection \<open>Properties and helpers of the repository that the file uses\<close>

definition FLT_MAX :: real where
  "FLT_MAX = 340282346638528859811704183484516925440"

record FloatProperty =
  fvalue :: real
  fmin :: real
  fmax :: real

text \<open>
  Modelled from the spec: \<^verbatim>\<open>FloatProperty\<close> (\<^verbatim>\<open>rviz/properties/float_property.h\<close>) is missing.
  The spec describes it as a min/max-clamped scalar with get/set, \<open>add(delta)\<close> and
  \<open>setMin/setMax\<close>, where an out-of-range set is silently saturated at the bound and \<open>add\<close>
  is the property's own clamped add.  A new property has no effective bound: the bounds start
  at the largest finite float.
\<close>

definition new_FloatProperty :: "real \<Rightarrow> FloatProperty" where
  "new_FloatProperty v = \<lparr>fvalue = v, fmin = - FLT_MAX, fmax = FLT_MAX\<rparr>"

definition clampf :: "FloatProperty \<Rightarrow> real \<Rightarrow> real" where
  "clampf p v = max (fmin p) (min (fmax p) v)"

definition getFloat :: "FloatProperty \<Rightarrow> real" where
  "getFloat p = fvalue p"

definition setFloat :: "real \<Rightarrow> FloatProperty \<Rightarrow> FloatProperty" where
  "setFloat v p = p\<lparr>fvalue := clampf p v\<rparr>"

definition addFloat :: "real \<Rightarrow> FloatProperty \<Rightarrow> FloatProperty" where
  "addFloat d p = setFloat (d + getFloat p) p"

definition getMax :: "FloatProperty \<Rightarrow> real" where
  "getMax p = fmax p"

definition setMax :: "real \<Rightarrow> FloatProperty \<Rightarrow> FloatProperty" where
  "setMax m p = setFloat (getFloat p) (p\<lparr>fmax := m\<rparr>)"

definition setMin :: "real \<Rightarrow> FloatProperty \<Rightarrow> FloatProperty" where
  "setMin m p = setFloat (getFloat p) (p\<lparr>fmin := m\<rparr>)"

text \<open>
  Modelled from the spec: \<^verbatim>\<open>mapAngleTo0_2Pi\<close> (\<^verbatim>\<open>rviz/geometry.h\<close>) is missing.  The spec
  says that it wraps an angle into \<open>[0, 2\<pi>)\<close>.
\<close>

definition mapAngleTo0_2Pi :: "real \<Rightarrow> real" where
  "mapAngleTo0_2Pi angle = angle - 2 * pi * of_int \<lfloor>angle / (2 * pi)\<rfloor>"

subsection \<open>The controller\<close>

datatype CursorType = Default | Rotate3D | MoveXY | MoveZ

datatype QEventType = MouseMove | MouseButtonPress | MouseButtonRelease | Wheel | OtherEvent

text \<open>
  \<^verbatim>\<open>ViewportMouseEvent\<close>: the pointer coordinates and the wheel delta are C++ \<^verbatim>\<open>int\<close>s,
  modelled as 32-bit words: subtraction and negation wrap around, and \<open>sint\<close> reads the signed
  value where the source converts it to a floating-point number.  \<open>left\<close>, \<open>middle\<close>,
  \<open>right\<close> and \<open>shift\<close> are the buttons and the modifier held at the time of the event.
\<close>

record ViewportMouseEvent =
  ev_type :: QEventType
  ev_x :: "32 word"
  ev_y :: "32 word"
  last_x :: "32 word"
  last_y :: "32 word"
  wheel_delta :: "32 word"
  left :: bool
  middle :: bool
  right :: bool
  shift :: bool

text \<open>
  Modelled from the spec: the base class \<^verbatim>\<open>FramePositionTrackingViewController\<close> is missing.
  It owns the reference frame state (last known reference position and orientation) and the
  tracked scene node; they are the \<open>tracking\<close> part of the controller, and what the base
  class does in \<open>update\<close> and \<open>mimic\<close> is a parameter that acts on that part only.
\<close>

record tracking =
  reference_position :: Vector3
  reference_orientation :: Quaternion
  target_scene_node_position :: Vector3
  target_scene_node_orientation :: Quaternion

text \<open>
  \<^verbatim>\<open>Camera::lookAt\<close> turns the camera towards a point of the world and leaves it where it
  is.  The camera hangs on the tracked scene node, so the orientation the engine computes
  depends on the pose of that node as well as on the target point and the camera: it is the
  parameter \<open>look\<close>, which reads all three.
\<close>

definition Camera_lookAt ::
  "(tracking \<Rightarrow> Vector3 \<Rightarrow> Camera \<Rightarrow> Quaternion) \<Rightarrow> tracking \<Rightarrow> Vector3 \<Rightarrow> Camera
     \<Rightarrow> Camera" where
  "Camera_lookAt look node p c = c\<lparr>cam_orientation := look node p c\<rparr>"

record controller =
  yaw_property :: FloatProperty
  pitch_property :: FloatProperty
  roll_property :: FloatProperty
  position_property :: Vector3
  camera :: Camera
  track :: tracking
  status :: string
  cursor :: CursorType
  render_requests :: nat

definition PITCH_LIMIT_LOW :: real where "PITCH_LIMIT_LOW = - HALF_PI + 0.001"
definition PITCH_LIMIT_HIGH :: real where "PITCH_LIMIT_HIGH = HALF_PI - 0.001"

definition ROBOT_TO_CAMERA_ROTATION :: "engine \<Rightarrow> Quaternion" where
  "ROBOT_TO_CAMERA_ROTATION E =
     qmul E (AngleAxis E (- HALF_PI) UNIT_Y) (AngleAxis E (- HALF_PI) UNIT_Z)"

text \<open>The constructor; the camera and the tracking state come from the host.\<close>

definition FPSRollViewController :: "Camera \<Rightarrow> tracking \<Rightarrow> controller" where
  "FPSRollViewController cam trk =
     (let yaw_p = new_FloatProperty 0;
          pitch_p = new_FloatProperty 0;
          pitch_p = setMax (HALF_PI - 0.001) pitch_p;
          pitch_p = setMin (- getMax pitch_p) pitch_p;
          roll_p = new_FloatProperty 0
      in \<lparr>yaw_property = yaw_p, pitch_property = pitch_p, roll_property = roll_p,
          position_property = Vec (- 10) 0 1, camera = cam, track = trk,
          status = [], cursor = Default, render_requests = 0\<rparr>)"

definition getOrientation :: "engine \<Rightarrow> controller \<Rightarrow> Quaternion" where
  "getOrientation E s =
     (let yaw = Quaternion_default;
          pitch = AngleAxis E (- 1.57) UNIT_Y;
          roll = AngleAxis E 1.57 UNIT_X
      in qmul E (qmul E roll pitch) yaw)"

definition updateCamera :: "engine \<Rightarrow> controller \<Rightarrow> controller" where
  "updateCamera E s =
     s\<lparr>camera := \<lparr>cam_position = position_property s, cam_orientation = getOrientation E s\<rparr>\<rparr>"

definition yaw :: "real \<Rightarrow> controller \<Rightarrow> controller" where
  "yaw angle s =
     s\<lparr>yaw_property :=
         setFloat (mapAngleTo0_2Pi (getFloat (yaw_property s) + angle)) (yaw_property s)\<rparr>"

definition pitch :: "real \<Rightarrow> controller \<Rightarrow> controller" where
  "pitch angle s = s\<lparr>pitch_property := addFloat angle (pitch_property s)\<rparr>"

definition roll :: "real \<Rightarrow> controller \<Rightarrow> controller" where
  "roll angle s = s"

definition move :: "engine \<Rightarrow> real \<Rightarrow> real \<Rightarrow> real \<Rightarrow> controller \<Rightarrow> controller" where
  "move E x y z s =
     (let translate = Vec x y z
      in s\<lparr>position_property :=
            vadd (position_property s) (qrotate E (getOrientation E s) translate)\<rparr>)"

definition setPropertiesFromCamera :: "engine \<Rightarrow> Camera \<Rightarrow> controller \<Rightarrow> controller" where
  "setPropertiesFromCamera E source_camera s =
     (let quat = qmul E (cam_orientation source_camera) (Inverse E (ROBOT_TO_CAMERA_ROTATION E));
          yaw0 = getRoll E quat;
          pitch0 = getYaw E quat;
          direction = qrotate E quat NEGATIVE_UNIT_Z;
          (pitch1, yaw1) =
            (if dotProduct direction NEGATIVE_UNIT_Z < 0
             then (let p = (if pitch0 > HALF_PI then pitch0 - PI
                            else if pitch0 < - HALF_PI then pitch0 + PI
                            else pitch0);
                       y = - yaw0;
                       y = (if dotProduct direction UNIT_X < 0 then y - PI else y + PI)
                   in (p, y))
             else (pitch0, yaw0))
      in s\<lparr>pitch_property := setFloat pitch1 (pitch_property s),
           yaw_property := setFloat (mapAngleTo0_2Pi yaw1) (yaw_property s),
           position_property := cam_position source_camera\<rparr>)"

definition reset ::
  "engine \<Rightarrow> (tracking \<Rightarrow> Vector3 \<Rightarrow> Camera \<Rightarrow> Quaternion) \<Rightarrow> controller \<Rightarrow> controller" where
  "reset E look s =
     (let s = s\<lparr>camera := (camera s)\<lparr>cam_position := Vec (- 10) 0 1\<rparr>\<rparr>;
          s = s\<lparr>camera := Camera_lookAt look (track s) (Vec 0 0 0) (camera s)\<rparr>;
          s = setPropertiesFromCamera E (camera s) s;
          s = updateCamera E s;
          s = s\<lparr>camera := Camera_lookAt look (track s) (Vec 0 0 0) (camera s)\<rparr>
      in setPropertiesFromCamera E (camera s) s)"

definition lookAt ::
  "engine \<Rightarrow> (tracking \<Rightarrow> Vector3 \<Rightarrow> Camera \<Rightarrow> Quaternion) \<Rightarrow> Vector3 \<Rightarrow> controller
     \<Rightarrow> controller" where
  "lookAt E look point s =
     (let s = s\<lparr>camera := Camera_lookAt look (track s) point (camera s)\<rparr>
      in setPropertiesFromCamera E (camera s) s)"

definition mimic ::
  "engine \<Rightarrow> (tracking \<Rightarrow> tracking) \<Rightarrow> Camera \<Rightarrow> controller \<Rightarrow> controller" where
  "mimic E base_mimic source_camera s =
     setPropertiesFromCamera E source_camera (s\<lparr>track := base_mimic (track s)\<rparr>)"

definition onTargetFrameChanged :: "Vector3 \<Rightarrow> Quaternion \<Rightarrow> controller \<Rightarrow> controller" where
  "onTargetFrameChanged old_reference_position old_reference_orientation s =
     s\<lparr>position_property :=
         vadd (position_property s)
              (vsub old_reference_position (reference_position (track s)))\<rparr>"

text \<open>
  \<open>update\<close>: the result of the one \<^verbatim>\<open>getTransform\<close> call of the tick is the argument
  \<open>tf\<close>, \<open>None\<close> when the call returns false and the new reference pose otherwise.
\<close>

definition update ::
  "engine \<Rightarrow> (tracking \<Rightarrow> tracking) \<Rightarrow> (Vector3 \<times> Quaternion) option \<Rightarrow> controller
     \<Rightarrow> controller" where
  "update E base_update tf s =
     (let s = s\<lparr>track := base_update (track s)\<rparr>;
          s = s\<lparr>track := (track s)\<lparr>target_scene_node_orientation :=
                                      reference_orientation (track s)\<rparr>\<rparr>;
          s = (case tf of
                 None \<Rightarrow> s
               | Some (new_reference_position, new_reference_orientation) \<Rightarrow>
                   (let target_roll = getRoll E new_reference_orientation;
                        s = s\<lparr>roll_property := setFloat target_roll (roll_property s)\<rparr>;
                        s = s\<lparr>yaw_property :=
                               setFloat (getYaw E new_reference_orientation) (yaw_property s)\<rparr>
                    in s\<lparr>pitch_property :=
                           setFloat (getPitch E new_reference_orientation) (pitch_property s)\<rparr>))
      in updateCamera E s)"

definition status_shift :: string where
  "status_shift = ''<b>Left-Click:</b> Move X/Y.  <b>Right-Click:</b>: Move Z.''"

definition status_plain :: string where
  "status_plain = ''<b>Left-Click:</b> Rotate.  <b>Middle-Click:</b> Move X/Y.  <b>Right-Click:</b>: Zoom.  <b>Shift</b>: More options.''"

definition queueRender :: "controller \<Rightarrow> controller" where
  "queueRender s = s\<lparr>render_requests := Suc (render_requests s)\<rparr>"

text \<open>The \<^verbatim>\<open>int32_t\<close> locals \<^verbatim>\<open>diff_x\<close> and \<^verbatim>\<open>diff_y\<close>.\<close>

definition diff_x :: "ViewportMouseEvent \<Rightarrow> 32 word" where
  "diff_x event = (if ev_type event = MouseMove then ev_x event - last_x event else 0)"

definition diff_y :: "ViewportMouseEvent \<Rightarrow> 32 word" where
  "diff_y event = (if ev_type event = MouseMove then ev_y event - last_y event else 0)"

definition handleMouseEvent :: "engine \<Rightarrow> ViewportMouseEvent \<Rightarrow> controller \<Rightarrow> controller" where
  "handleMouseEvent E event s =
     (let s = s\<lparr>status := (if shift event then status_shift else status_plain)\<rparr>;
          moved = (ev_type event = MouseMove);
          s = (if left event \<and> \<not> shift event
               then pitch (real_of_int (sint (diff_y event)) * 0.005)
                      (yaw (real_of_int (sint (- diff_x event)) * 0.005)
                         (s\<lparr>cursor := Rotate3D\<rparr>))
               else if middle event \<or> (shift event \<and> left event)
               then move E (real_of_int (sint (diff_x event)) * 0.01)
                      (real_of_int (sint (- diff_y event)) * 0.01) 0 (s\<lparr>cursor := MoveXY\<rparr>)
               else if right event
               then move E 0 0 (real_of_int (sint (diff_y event)) * 0.1)
                      (s\<lparr>cursor := MoveZ\<rparr>)
               else s\<lparr>cursor := (if shift event then MoveXY else Rotate3D)\<rparr>);
          (s, moved) =
            (if wheel_delta event \<noteq> 0
             then (let diff = wheel_delta event
                   in (move E 0 0 (real_of_int (sint (- diff)) * 0.01) s, True))
             else (s, moved))
      in if moved then queueRender s else s)"

subsection \<open>The engine as Ogre implements it\<close>

text \<open>
  The quaternion arithmetic of \<^verbatim>\<open>OgreQuaternion.cpp\<close> and \<^verbatim>\<open>OgreMath.h\<close> over the reals: the
  concrete engine at which the general theorems are instantiated and the failing inputs are
  evaluated.
\<close>

definition ogre_qmul :: "Quaternion \<Rightarrow> Quaternion \<Rightarrow> Quaternion" where
  "ogre_qmul a b =
     \<lparr>qw = qw a * qw b - qx a * qx b - qy a * qy b - qz a * qz b,
      qx = qw a * qx b + qx a * qw b + qy a * qz b - qz a * qy b,
      qy = qw a * qy b + qy a * qw b + qz a * qx b - qx a * qz b,
      qz = qw a * qz b + qz a * qw b + qx a * qy b - qy a * qx b\<rparr>"

definition ogre_Inverse :: "Quaternion \<Rightarrow> Quaternion" where
  "ogre_Inverse q =
     (let fNorm = qw q * qw q + qx q * qx q + qy q * qy q + qz q * qz q
      in if fNorm > 0
         then \<lparr>qw = qw q / fNorm, qx = - qx q / fNorm, qy = - qy q / fNorm, qz = - qz q / fNorm\<rparr>
         else \<lparr>qw = 0, qx = 0, qy = 0, qz = 0\<rparr>)"

definition ogre_rotate :: "Quaternion \<Rightarrow> Vector3 \<Rightarrow> Vector3" where
  "ogre_rotate q v =
     (let qvec = Vec (qx q) (qy q) (qz q);
          uv = crossProduct qvec v;
          uuv = crossProduct qvec uv;
          uv = vscale (2 * qw q) uv;
          uuv = vscale 2 uuv
      in vadd (vadd v uv) uuv)"

definition ogre_AngleAxis :: "real \<Rightarrow> Vector3 \<Rightarrow> Quaternion" where
  "ogre_AngleAxis angle axis =
     (let fHalfAngle = 0.5 * angle;
          fSin = sin fHalfAngle
      in \<lparr>qw = cos fHalfAngle, qx = fSin * vx axis, qy = fSin * vy axis, qz = fSin * vz axis\<rparr>)"

definition ogre_ATan2 :: "real \<Rightarrow> real \<Rightarrow> real" where
  "ogre_ATan2 y x =
     (if x > 0 then arctan (y / x)
      else if x < 0 then (if y \<ge> 0 then arctan (y / x) + pi else arctan (y / x) - pi)
      else if y > 0 then pi / 2
      else if y < 0 then - (pi / 2)
      else 0)"

definition ogre_ASin :: "real \<Rightarrow> real" where
  "ogre_ASin v = (if - 1 < v then (if v < 1 then arcsin v else HALF_PI) else - HALF_PI)"

definition ogre_getRoll :: "Quaternion \<Rightarrow> real" where
  "ogre_getRoll q =
     ogre_ATan2 (2 * (qx q * qy q + qw q * qz q))
                (qw q * qw q + qx q * qx q - qy q * qy q - qz q * qz q)"

definition ogre_getPitch :: "Quaternion \<Rightarrow> real" where
  "ogre_getPitch q =
     ogre_ATan2 (2 * (qy q * qz q + qw q * qx q))
                (qw q * qw q - qx q * qx q - qy q * qy q + qz q * qz q)"

definition ogre_getYaw :: "Quaternion \<Rightarrow> real" where
  "ogre_getYaw q = ogre_ASin (- 2 * (qx q * qz q - qw q * qy q))"

definition ogre :: engine where
  "ogre = \<lparr>qmul = ogre_qmul, Inverse = ogre_Inverse, qrotate = ogre_rotate,
            AngleAxis = ogre_AngleAxis, getRoll = ogre_getRoll, getYaw = ogre_getYaw,
            getPitch = ogre_getPitch\<rparr>"

text \<open>A camera at the origin with the identity orientation, and a tracking state at rest.\<close>

definition camera0 :: Camera where
  "camera0 = \<lparr>cam_position = Vec 0 0 0, cam_orientation = Quaternion_default\<rparr>"

definition tracking0 :: tracking where
  "tracking0 = \<lparr>reference_position = Vec 0 0 0, reference_orientation = Quaternion_default,
                  target_scene_node_position = Vec 0 0 0,
                  target_scene_node_orientation = Quaternion_default\<rparr>"

definition controller0 :: controller where
  "controller0 = FPSRollViewController camera0 tracking0"

subsection \<open>Where the camera is and looks in the world\<close>









subsection \<open>The reverse extraction, in the words of the specification\<close>

text \<open>
  The specification of the reverse extraction: remove the basis rotation by multiplying with
  its inverse on the right; the yaw is the native roll and the pitch the native yaw; when the
  forward direction projects negatively onto the world-forward axis, fold the pitch, negate
  the yaw and shift it by \<open>\<pi>\<close> according to the sign of the projection onto the lateral axis.
\<close>

definition basis_removed :: "engine \<Rightarrow> Quaternion \<Rightarrow> Quaternion" where
  "basis_removed E q = qmul E q (Inverse E (ROBOT_TO_CAMERA_ROTATION E))"

definition facing_backward :: "engine \<Rightarrow> Quaternion \<Rightarrow> bool" where
  "facing_backward E q =
     (dotProduct (qrotate E (basis_removed E q) NEGATIVE_UNIT_Z) NEGATIVE_UNIT_Z < 0)"

definition fold_pitch :: "real \<Rightarrow> real" where
  "fold_pitch p = (if p > pi / 2 then p - pi else if p < - (pi / 2) then p + pi else p)"

definition extracted_pitch :: "engine \<Rightarrow> Quaternion \<Rightarrow> real" where
  "extracted_pitch E q =
     (if facing_backward E q then fold_pitch (getYaw E (basis_removed E q))
      else getYaw E (basis_removed E q))"

definition extracted_yaw :: "engine \<Rightarrow> Quaternion \<Rightarrow> real" where
  "extracted_yaw E q =
     (if facing_backward E q
      then (if dotProduct (qrotate E (basis_removed E q) NEGATIVE_UNIT_Z) UNIT_X < 0
            then - getRoll E (basis_removed E q) - pi
            else - getRoll E (basis_removed E q) + pi)
      else getRoll E (basis_removed E q))"

subsection \<open>The mouse dispatch, in the words of the specification\<close>

text \<open>
  The specification names four actions with a precedence.  Its primary, secondary and
  tertiary buttons are the buttons the source tests first, second and third: left, middle and
  right.
\<close>

datatype action = Rotate | Pan | MoveAlongZ | NoAction

definition classify :: "ViewportMouseEvent \<Rightarrow> action" where
  "classify event =
     (if left event \<and> \<not> shift event then Rotate
      else if middle event \<or> (left event \<and> shift event) then Pan
      else if right event then MoveAlongZ
      else NoAction)"

text \<open>
  The displacement of the pointer, in the integers: that of a move event, and zero for any
  other event.
\<close>

definition pointer_dx :: "ViewportMouseEvent \<Rightarrow> int" where
  "pointer_dx event =
     (if ev_type event = MouseMove then sint (ev_x event) - sint (last_x event) else 0)"

definition pointer_dy :: "ViewportMouseEvent \<Rightarrow> int" where
  "pointer_dy event =
     (if ev_type event = MouseMove then sint (ev_y event) - sint (last_y event) else 0)"

text \<open>
  The four actions and the wheel move on integer displacements.  The negation is a parameter:
  it is \<open>uminus\<close> in the integers and \<open>neg32\<close> in 32-bit arithmetic, where \<open>int32\<close> is the
  value a 32-bit \<^verbatim>\<open>int\<close> holds for an integer.
\<close>

definition apply_action ::
  "engine \<Rightarrow> (int \<Rightarrow> int) \<Rightarrow> action \<Rightarrow> int \<Rightarrow> int \<Rightarrow> controller \<Rightarrow> controller" where
  "apply_action E neg a dx dy s =
     (case a of
        Rotate \<Rightarrow> pitch (real_of_int dy * 0.005) (yaw (real_of_int (neg dx) * 0.005) s)
      | Pan \<Rightarrow> move E (real_of_int dx * 0.01) (real_of_int (neg dy) * 0.01) 0 s
      | MoveAlongZ \<Rightarrow> move E 0 0 (real_of_int dy * 0.1) s
      | NoAction \<Rightarrow> s)"

definition apply_wheel :: "engine \<Rightarrow> (int \<Rightarrow> int) \<Rightarrow> int \<Rightarrow> controller \<Rightarrow> controller" where
  "apply_wheel E neg wheel s =
     (if wheel = 0 then s else move E 0 0 (real_of_int (neg wheel) * 0.01) s)"

definition int32 :: "int \<Rightarrow> int" where
  "int32 i = sint (word_of_int i :: 32 word)"

definition neg32 :: "int \<Rightarrow> int" where
  "neg32 i = int32 (- i)"

text \<open>
  No 32-bit operation of the handler overflows on the event: the displacements and the
  negations of the displacements and of the wheel delta are 32-bit values.
\<close>

definition no_overflow :: "ViewportMouseEvent \<Rightarrow> bool" where
  "no_overflow event =
     (- (2 ^ 31) < pointer_dx event \<and> pointer_dx event < 2 ^ 31
      \<and> - (2 ^ 31) < pointer_dy event \<and> pointer_dy event < 2 ^ 31
      \<and> - (2 ^ 31) < sint (wheel_delta event))"

definition action_cursor :: "ViewportMouseEvent \<Rightarrow> CursorType" where
  "action_cursor event =
     (case classify event of
        Rotate \<Rightarrow> Rotate3D
      | Pan \<Rightarrow> MoveXY
      | MoveAlongZ \<Rightarrow> MoveZ
      | NoAction \<Rightarrow> (if shift event then MoveXY else Rotate3D))"

text \<open>The pose the controller keeps: the three angle properties and the position.\<close>

definition pose ::
  "controller \<Rightarrow> FloatProperty \<times> FloatProperty \<times> FloatProperty \<times> Vector3" where
  "pose s = (yaw_property s, pitch_property s, roll_property s, position_property s)"

text \<open>The button-driven action of an event is a \<open>move(0, 0, 0)\<close>.\<close>

definition null_move :: "ViewportMouseEvent \<Rightarrow> bool" where
  "null_move event =
     (case classify event of
        Pan \<Rightarrow> diff_x event = 0 \<and> diff_y event = 0
      | MoveAlongZ \<Rightarrow> diff_y event = 0
      | Rotate \<Rightarrow> False
      | NoAction \<Rightarrow> False)"

subsection \<open>Invariants of the property layer\<close>

text \<open>A property value lies within the property's own bounds.\<close>

definition within_bounds :: "FloatProperty \<Rightarrow> bool" where
  "within_bounds p = (fmin p \<le> fvalue p \<and> fvalue p \<le> fmax p)"

definition valid :: "controller \<Rightarrow> bool" where
  "valid s = (within_bounds (yaw_property s) \<and> within_bounds (pitch_property s)
              \<and> within_bounds (roll_property s))"

text \<open>The pitch property carries the bounds of the constructor and lies between them.\<close>

definition pitch_in_range :: "controller \<Rightarrow> bool" where
  "pitch_in_range s =
     (fmin (pitch_property s) = PITCH_LIMIT_LOW \<and> fmax (pitch_property s) = PITCH_LIMIT_HIGH
      \<and> PITCH_LIMIT_LOW \<le> fvalue (pitch_property s)
      \<and> fvalue (pitch_property s) \<le> PITCH_LIMIT_HIGH)"

text \<open>The bounds of the yaw property do not cut into \<open>[0, 2\<pi>)\<close>.\<close>

definition yaw_unbounded :: "controller \<Rightarrow> bool" where
  "yaw_unbounded s = (fmin (yaw_property s) \<le> 0 \<and> 2 * pi \<le> fmax (yaw_property s))"

subsection \<open>Sample inputs\<close>

text \<open>A drag to the right with the right button held: the pointer moves in x only.\<close>

definition right_drag_sideways :: ViewportMouseEvent where
  "right_drag_sideways =
     \<lparr>ev_type = MouseMove, ev_x = 5, ev_y = 7, last_x = 3, last_y = 7, wheel_delta = 0,
      left = False, middle = False, right = True, shift = False\<rparr>"

text \<open>A press of the middle button.\<close>

definition middle_press :: ViewportMouseEvent where
  "middle_press =
     \<lparr>ev_type = MouseButtonPress, ev_x = 5, ev_y = 7, last_x = 3, last_y = 4, wheel_delta = 0,
      left = False, middle = True, right = False, shift = False\<rparr>"

text \<open>A drag with the left button held while the wheel turns.\<close>

definition left_drag :: ViewportMouseEvent where
  "left_drag =
     \<lparr>ev_type = MouseMove, ev_x = 5, ev_y = 7, last_x = 3, last_y = 4, wheel_delta = 120,
      left = True, middle = False, right = False, shift = False\<rparr>"

text \<open>A press of the left button, shift not held.\<close>

definition left_press :: ViewportMouseEvent where
  "left_press =
     \<lparr>ev_type = MouseButtonPress, ev_x = 5, ev_y = 7, last_x = 3, last_y = 4, wheel_delta = 0,
      left = True, middle = False, right = False, shift = False\<rparr>"

text \<open>A unit quaternion: the tracked frame tilted about its Y axis.\<close>

definition tilted_frame :: Quaternion where
  "tilted_frame = \<lparr>qw = 4 / 5, qx = 0, qy = - (3 / 5), qz = 0\<rparr>"

section \<open>Properties\<close>

subsection \<open>Bounds on \<open>\<pi>\<close>\<close>

lemma sin_poly18:
  "(\<Sum>m<18. sin_coeff m * x ^ m) =
     x - x^3/6 + x^5/120 - x^7/5040 + x^9/362880 - x^11/39916800 + x^13/6227020800
       - x^15/1307674368000 + x^17/355687428096000" for x :: real
  by (simp add: lessThan_nat_numeral sin_coeff_def fact_numeral)

lemma sin_between:
  fixes x P R :: real
  assumes "\<bar>sin x - P\<bar> \<le> R"
  shows "P - R \<le> sin x" "sin x \<le> P + R"
  using assms by linarith+

lemma pi_gt: "3.14159 < pi"
proof -
  define P :: real where "P = (\<Sum>m<18. sin_coeff m * 3.14159 ^ m)"
  define R :: real where "R = inverse (fact 18) * \<bar>3.14159\<bar> ^ 18"
  have b: "\<bar>sin 3.14159 - P\<bar> \<le> R"
    unfolding P_def R_def by (rule Maclaurin_sin_bound)
  have p: "P > 1 / 1000000"
    unfolding P_def sin_poly18 by (simp add: power_divide)
  have r: "R < 1 / 1000000"
    unfolding R_def by (simp add: fact_numeral power_divide)
  have "0 < sin (3.14159::real)" using sin_between(1) [OF b] p r by linarith
  moreover have "(3.14159::real) < 2 * pi" using pi_ge_two by simp
  ultimately show ?thesis using sin_le_zero [of "3.14159"] by fastforce
qed

lemma pi_lt: "pi < 3.1416"
proof -
  define P :: real where "P = (\<Sum>m<18. sin_coeff m * 3.1416 ^ m)"
  define R :: real where "R = inverse (fact 18) * \<bar>3.1416\<bar> ^ 18"
  have b: "\<bar>sin 3.1416 - P\<bar> \<le> R"
    unfolding P_def R_def by (rule Maclaurin_sin_bound)
  have p: "P < - (1 / 1000000)"
    unfolding P_def sin_poly18 by (simp add: power_divide)
  have r: "R < 1 / 1000000"
    unfolding R_def by (simp add: fact_numeral power_divide)
  have "sin (3.1416::real) < 0" using sin_between(2) [OF b] p r by linarith
  then show ?thesis using sin_ge_zero [of "3.1416"] by fastforce
qed

lemma pitch_limits: "PITCH_LIMIT_LOW = - PITCH_LIMIT_HIGH" "1.5 < PITCH_LIMIT_HIGH"
  "PITCH_LIMIT_HIGH < 1.57" "PITCH_LIMIT_LOW < 0" "0 < PITCH_LIMIT_HIGH"
  using pi_gt pi_lt by (simp_all add: PITCH_LIMIT_LOW_def PITCH_LIMIT_HIGH_def HALF_PI_def)

lemma FLT_MAX_big: "8 < FLT_MAX"
  by (simp add: FLT_MAX_def)

subsection \<open>The property layer and the angle wrap\<close>

lemma within_bounds_setFloat: "fmin p \<le> fmax p \<Longrightarrow> within_bounds (setFloat v p)"
  by (simp add: within_bounds_def setFloat_def clampf_def)

lemma setFloat_bounds [simp]: "fmin (setFloat v p) = fmin p" "fmax (setFloat v p) = fmax p"
  by (simp_all add: setFloat_def)

lemma setFloat_inside: "fmin p \<le> v \<Longrightarrow> v \<le> fmax p \<Longrightarrow> fvalue (setFloat v p) = v"
  by (simp add: setFloat_def clampf_def)

lemma setFloat_same: "within_bounds p \<Longrightarrow> setFloat (fvalue p) p = p"
  by (simp add: setFloat_def clampf_def within_bounds_def)


lemma ctor_pitch_property:
  "pitch_property (FPSRollViewController cam trk) =
     \<lparr>fvalue = 0, fmin = PITCH_LIMIT_LOW, fmax = PITCH_LIMIT_HIGH\<rparr>"
proof -
  have "0 < HALF_PI - 0.001" "HALF_PI - 0.001 < FLT_MAX"
    using pitch_limits(3,5) FLT_MAX_big by (simp_all add: PITCH_LIMIT_HIGH_def)
  then show ?thesis
    by (simp add: FPSRollViewController_def new_FloatProperty_def setMax_def setMin_def
        getMax_def getFloat_def setFloat_def clampf_def Let_def PITCH_LIMIT_LOW_def
        PITCH_LIMIT_HIGH_def)
qed

lemma ctor_valid: "valid (FPSRollViewController cam trk)"
proof -
  have "within_bounds (pitch_property (FPSRollViewController cam trk))"
    unfolding ctor_pitch_property using pitch_limits(4,5) by (simp add: within_bounds_def)
  moreover have "within_bounds (yaw_property (FPSRollViewController cam trk))"
    "within_bounds (roll_property (FPSRollViewController cam trk))"
    using FLT_MAX_big
    by (simp_all add: FPSRollViewController_def new_FloatProperty_def within_bounds_def Let_def)
  ultimately show ?thesis by (simp add: valid_def)
qed

lemma mapAngleTo0_2Pi_range: "0 \<le> mapAngleTo0_2Pi a \<and> mapAngleTo0_2Pi a < 2 * pi"
proof -
  have pos: "0 < 2 * pi" by simp
  define k where "k = \<lfloor>a / (2 * pi)\<rfloor>"
  have "of_int k \<le> a / (2 * pi)" and "a / (2 * pi) < of_int k + 1"
    unfolding k_def by linarith+
  then have "of_int k * (2 * pi) \<le> a" and "a < (of_int k + 1) * (2 * pi)"
    using pos by (simp_all add: pos_le_divide_eq pos_divide_less_eq)
  then show ?thesis
    unfolding mapAngleTo0_2Pi_def k_def [symmetric] by (simp add: algebra_simps)
qed

lemma mapAngleTo0_2Pi_id: "0 \<le> a \<Longrightarrow> a < 2 * pi \<Longrightarrow> mapAngleTo0_2Pi a = a"
proof -
  assume a: "0 \<le> a" "a < 2 * pi"
  have "\<lfloor>a / (2 * pi)\<rfloor> = 0"
    using a by (simp add: floor_eq_iff)
  then show ?thesis by (simp add: mapAngleTo0_2Pi_def)
qed

subsection \<open>What the methods leave alone\<close>

lemma vadd_zero [simp]: "vadd p (Vec 0 0 0) = p"
  by (simp add: vadd_def Vec_def)

lemma ogre_rotate_zero: "qrotate ogre q (Vec 0 0 0) = Vec 0 0 0"
  by (simp add: ogre_def ogre_rotate_def crossProduct_def vscale_def vadd_def Vec_def)

lemma move_zero:
  "(\<And>q. qrotate E q (Vec 0 0 0) = Vec 0 0 0) \<Longrightarrow> move E 0 0 0 s = s"
  by (simp add: move_def)

lemma yaw_zero:
  "within_bounds (yaw_property s) \<Longrightarrow> 0 \<le> fvalue (yaw_property s)
   \<Longrightarrow> fvalue (yaw_property s) < 2 * pi \<Longrightarrow> yaw 0 s = s"
  by (simp add: yaw_def getFloat_def mapAngleTo0_2Pi_id setFloat_same)

lemma yaw_keeps [simp]:
  "pitch_property (yaw a s) = pitch_property s" "roll_property (yaw a s) = roll_property s"
  "position_property (yaw a s) = position_property s" "camera (yaw a s) = camera s"
  "track (yaw a s) = track s" "status (yaw a s) = status s" "cursor (yaw a s) = cursor s"
  "render_requests (yaw a s) = render_requests s"
  by (simp_all add: yaw_def)

lemma pitch_keeps [simp]:
  "yaw_property (pitch a s) = yaw_property s" "roll_property (pitch a s) = roll_property s"
  "position_property (pitch a s) = position_property s" "camera (pitch a s) = camera s"
  "track (pitch a s) = track s" "status (pitch a s) = status s" "cursor (pitch a s) = cursor s"
  "render_requests (pitch a s) = render_requests s"
  by (simp_all add: pitch_def)

lemma move_keeps [simp]:
  "yaw_property (move E x y z s) = yaw_property s"
  "pitch_property (move E x y z s) = pitch_property s"
  "roll_property (move E x y z s) = roll_property s" "camera (move E x y z s) = camera s"
  "track (move E x y z s) = track s" "status (move E x y z s) = status s"
  "cursor (move E x y z s) = cursor s" "render_requests (move E x y z s) = render_requests s"
  by (simp_all add: move_def)

lemma setPropertiesFromCamera_alt:
  "setPropertiesFromCamera E cam s =
     s\<lparr>pitch_property := setFloat (extracted_pitch E (cam_orientation cam)) (pitch_property s),
       yaw_property :=
         setFloat (mapAngleTo0_2Pi (extracted_yaw E (cam_orientation cam))) (yaw_property s),
       position_property := cam_position cam\<rparr>"
  by (simp add: setPropertiesFromCamera_def extracted_pitch_def extracted_yaw_def
      facing_backward_def basis_removed_def fold_pitch_def HALF_PI_def PI_def Let_def)

lemma setPropertiesFromCamera_camera [simp]:
  "camera (setPropertiesFromCamera E c s) = camera s"
  by (simp add: setPropertiesFromCamera_alt)


text \<open>
  Every method keeps the property values within their bounds, and the constructor starts
  there: \<open>valid\<close> holds in every state the controller reaches.
\<close>

lemma valid_setters:
  assumes "valid s"
  shows "valid (s\<lparr>yaw_property := setFloat a (yaw_property s)\<rparr>)"
    and "valid (s\<lparr>pitch_property := setFloat a (pitch_property s)\<rparr>)"
    and "valid (s\<lparr>roll_property := setFloat a (roll_property s)\<rparr>)"
  using assms by (auto simp add: valid_def within_bounds_def setFloat_def clampf_def)

lemma valid_fields [simp]:
  "valid (s\<lparr>position_property := v\<rparr>) = valid s" "valid (s\<lparr>camera := c\<rparr>) = valid s"
  "valid (s\<lparr>track := k\<rparr>) = valid s" "valid (s\<lparr>status := m\<rparr>) = valid s"
  "valid (s\<lparr>cursor := u\<rparr>) = valid s" "valid (s\<lparr>render_requests := n\<rparr>) = valid s"
  by (simp_all add: valid_def)

lemma valid_yaw: "valid s \<Longrightarrow> valid (yaw a s)"
  unfolding yaw_def by (rule valid_setters)

lemma valid_pitch: "valid s \<Longrightarrow> valid (pitch a s)"
  unfolding pitch_def addFloat_def by (rule valid_setters)

lemma valid_move: "valid s \<Longrightarrow> valid (move E x y z s)"
  by (simp add: move_def)

lemma valid_updateCamera: "valid s \<Longrightarrow> valid (updateCamera E s)"
  by (simp add: updateCamera_def)

lemma valid_setPropertiesFromCamera: "valid s \<Longrightarrow> valid (setPropertiesFromCamera E c s)"
  by (auto simp add: setPropertiesFromCamera_alt valid_def within_bounds_def setFloat_def
      clampf_def)

lemma valid_reset: "valid s \<Longrightarrow> valid (reset E look s)"
  by (simp add: reset_def Let_def valid_setPropertiesFromCamera valid_updateCamera)

lemma valid_lookAt: "valid s \<Longrightarrow> valid (lookAt E look p s)"
  by (simp add: lookAt_def Let_def valid_setPropertiesFromCamera)

lemma valid_mimic: "valid s \<Longrightarrow> valid (mimic E base_mimic c s)"
  by (simp add: mimic_def valid_setPropertiesFromCamera)

lemma valid_onTargetFrameChanged: "valid s \<Longrightarrow> valid (onTargetFrameChanged p q s)"
  by (simp add: onTargetFrameChanged_def)

lemma valid_update: "valid s \<Longrightarrow> valid (update E base_update tf s)"
  by (cases tf)
    (auto simp add: update_def Let_def updateCamera_def valid_def within_bounds_def setFloat_def
      clampf_def)

lemma valid_handleMouseEvent: "valid s \<Longrightarrow> valid (handleMouseEvent E event s)"
  by (simp add: handleMouseEvent_def Let_def queueRender_def valid_yaw valid_pitch valid_move)

lemma controller0_valid: "valid controller0"
  by (simp add: controller0_def ctor_valid)

lemma controller0_yaw: "fvalue (yaw_property controller0) = 0"
  by (simp add: controller0_def FPSRollViewController_def new_FloatProperty_def Let_def)

lemma handleMouseEvent_render_requests:
  "render_requests (handleMouseEvent E event s) =
     (if ev_type event = MouseMove \<or> wheel_delta event \<noteq> 0
      then Suc (render_requests s) else render_requests s)"
  by (simp add: handleMouseEvent_def Let_def queueRender_def)

lemma handleMouseEvent_pitch_property:
  "pitch_property (handleMouseEvent E event s) =
     (if left event \<and> \<not> shift event
      then addFloat (real_of_int (sint (diff_y event)) * 0.005) (pitch_property s)
      else pitch_property s)"
  by (simp add: handleMouseEvent_def Let_def queueRender_def pitch_def)

lemma handleMouseEvent_yaw_property:
  "yaw_property (handleMouseEvent E event s) =
     (if left event \<and> \<not> shift event
      then yaw_property (yaw (real_of_int (sint (- diff_x event)) * 0.005) s)
      else yaw_property s)"
  by (simp add: handleMouseEvent_def Let_def queueRender_def yaw_def)

lemma handleMouseEvent_roll_property:
  "roll_property (handleMouseEvent E event s) = roll_property s"
  by (simp add: handleMouseEvent_def Let_def queueRender_def)

lemma handleMouseEvent_status:
  "status (handleMouseEvent E event s) = (if shift event then status_shift else status_plain)"
  by (simp add: handleMouseEvent_def Let_def queueRender_def)

lemma int32_sint [simp]: "int32 (sint w) = sint w" for w :: "32 word"
  by (simp add: int32_def)

lemma neg32_sint: "neg32 (sint w) = sint (- w)" for w :: "32 word"
  by (simp add: neg32_def int32_def)

lemma int32_id: "- (2 ^ 31) \<le> i \<Longrightarrow> i < 2 ^ 31 \<Longrightarrow> int32 i = i"
  by (simp add: int32_def signed_of_int signed_take_bit_int_eq_self)

lemma sint_diff_x: "sint (diff_x event) = int32 (pointer_dx event)"
  by (simp add: diff_x_def pointer_dx_def int32_def)

lemma sint_diff_y: "sint (diff_y event) = int32 (pointer_dy event)"
  by (simp add: diff_y_def pointer_dy_def int32_def)

lemma handleMouseEvent_pose:
  "pose (handleMouseEvent E event s) =
     pose (apply_wheel E neg32 (sint (wheel_delta event))
            (apply_action E neg32 (classify event) (sint (diff_x event)) (sint (diff_y event))
               s))"
  by (simp add: handleMouseEvent_def apply_wheel_def apply_action_def classify_def Let_def
      pose_def queueRender_def yaw_def pitch_def move_def getOrientation_def neg32_sint
      signed_eq_0_iff)

lemma handleMouseEvent_position:
  "position_property (handleMouseEvent E event s) =
     position_property
       (apply_wheel E neg32 (sint (wheel_delta event))
          (apply_action E neg32 (classify event) (sint (diff_x event)) (sint (diff_y event))
             s))"
  using handleMouseEvent_pose [of E event s] by (simp add: pose_def)

lemma handleMouseEvent_still:
  assumes rz: "\<And>q. qrotate E q (Vec 0 0 0) = Vec 0 0 0"
    and "wheel_delta event = 0"
    and "diff_y event = 0" and "classify event = Pan \<Longrightarrow> diff_x event = 0"
  shows "position_property (handleMouseEvent E event s) = position_property s"
  using assms(2-)
  by (cases "classify event")
    (simp_all add: handleMouseEvent_position apply_wheel_def apply_action_def neg32_def
      int32_def move_zero [OF rz])

subsection \<open>Reverse extraction\<close>

text \<open>
  C1.  For every camera pose, \<open>setPropertiesFromCamera\<close> writes, through the setters of the
  properties, the pitch and the wrapped yaw that the specification describes (basis rotation
  removed by its inverse on the right, yaw from the native roll, pitch from the native yaw,
  branch correction exactly when the forward direction projects negatively onto the
  world-forward axis), and the raw position of the camera; the wrapped yaw lies in
  \<open>[0, 2\<pi>)\<close>; nothing else of the controller changes.
\<close>

theorem setPropertiesFromCamera_extracts:
  "setPropertiesFromCamera E cam s =
     s\<lparr>pitch_property := setFloat (extracted_pitch E (cam_orientation cam)) (pitch_property s),
       yaw_property :=
         setFloat (mapAngleTo0_2Pi (extracted_yaw E (cam_orientation cam))) (yaw_property s),
       position_property := cam_position cam\<rparr>
   \<and> 0 \<le> mapAngleTo0_2Pi (extracted_yaw E (cam_orientation cam))
   \<and> mapAngleTo0_2Pi (extracted_yaw E (cam_orientation cam)) < 2 * pi"
  by (simp add: setPropertiesFromCamera_def extracted_pitch_def extracted_yaw_def
      facing_backward_def basis_removed_def fold_pitch_def HALF_PI_def PI_def Let_def
      mapAngleTo0_2Pi_range)

subsection \<open>Forward transform\<close>

text \<open>
  C2.  \<open>getOrientation\<close> does not read the controller: in any two states, whatever the yaw,
  pitch and roll properties hold, it returns the same quaternion, the product of the rotation
  by \<open>1.57\<close> radians about the X (lateral) axis, the rotation by \<open>-1.57\<close> radians about the Y
  (up) axis and the default (identity) quaternion.  The literal \<open>1.57\<close> is a quarter turn to
  within a thousandth of a radian.
\<close>

theorem getOrientation_constant:
  "getOrientation E s = getOrientation E s'
   \<and> getOrientation E s =
       qmul E (qmul E (AngleAxis E 1.57 UNIT_X) (AngleAxis E (- 1.57) UNIT_Y)) Quaternion_default
   \<and> getOrientation E (s\<lparr>yaw_property := y, pitch_property := p, roll_property := r\<rparr>) =
       getOrientation E s
   \<and> \<bar>1.57 - pi / 2\<bar> < 1 / 1000"
  using pi_gt pi_lt by (simp add: getOrientation_def)




subsection \<open>Reset\<close>



text \<open>The Ogre arithmetic at the identity quaternion.\<close>

lemma Vec_eta [simp]: "Vec (vx v) (vy v) (vz v) = v"
  by (simp add: Vec_def)

lemma ogre_rotate_default [simp]: "ogre_rotate Quaternion_default v = v"
  by (simp add: ogre_rotate_def Quaternion_default_def crossProduct_def vscale_def vadd_def
      Vec_def)

lemma ogre_qmul_default [simp]: "ogre_qmul Quaternion_default q = q"
  by (simp add: ogre_qmul_def Quaternion_default_def)

lemma ogre_Inverse_default [simp]: "ogre_Inverse Quaternion_default = Quaternion_default"
  by (simp add: ogre_Inverse_def Quaternion_default_def)






subsection \<open>Yaw\<close>

text \<open>
  The yaw helper and the reverse extraction wrap what they store: from a yaw property whose
  bounds leave \<open>[0, 2\<pi>)\<close> free, as the constructor makes it, the stored yaw lies in
  \<open>[0, 2\<pi>)\<close>; from a yaw of 6, \<open>yaw(1)\<close> stores \<open>7 - 2\<pi>\<close>, about 0.7168.
\<close>

lemma yaw_unbounded_ctor: "yaw_unbounded (FPSRollViewController cam trk)"
  using FLT_MAX_big pi_lt
  by (simp add: yaw_unbounded_def FPSRollViewController_def new_FloatProperty_def Let_def)

lemma yaw_wraps:
  assumes "yaw_unbounded s"
  shows "fvalue (yaw_property (yaw delta s)) = mapAngleTo0_2Pi (fvalue (yaw_property s) + delta)"
    and "0 \<le> fvalue (yaw_property (yaw delta s))"
    and "fvalue (yaw_property (yaw delta s)) < 2 * pi"
    and "yaw_unbounded (yaw delta s)"
proof -
  have r: "0 \<le> mapAngleTo0_2Pi (fvalue (yaw_property s) + delta)"
    "mapAngleTo0_2Pi (fvalue (yaw_property s) + delta) < 2 * pi"
    using mapAngleTo0_2Pi_range by simp_all
  show a: "fvalue (yaw_property (yaw delta s)) =
      mapAngleTo0_2Pi (fvalue (yaw_property s) + delta)"
    using assms r by (simp add: yaw_def getFloat_def yaw_unbounded_def setFloat_inside)
  show "0 \<le> fvalue (yaw_property (yaw delta s))" "fvalue (yaw_property (yaw delta s)) < 2 * pi"
    unfolding a using r by simp_all
  show "yaw_unbounded (yaw delta s)"
    using assms by (simp add: yaw_unbounded_def yaw_def)
qed

lemma yaw_extracted:
  assumes "yaw_unbounded s"
  shows "0 \<le> fvalue (yaw_property (setPropertiesFromCamera E c s))"
    and "fvalue (yaw_property (setPropertiesFromCamera E c s)) < 2 * pi"
proof -
  have r: "0 \<le> mapAngleTo0_2Pi (extracted_yaw E (cam_orientation c))"
    "mapAngleTo0_2Pi (extracted_yaw E (cam_orientation c)) < 2 * pi"
    using mapAngleTo0_2Pi_range by simp_all
  have "fvalue (yaw_property (setPropertiesFromCamera E c s)) =
      mapAngleTo0_2Pi (extracted_yaw E (cam_orientation c))"
    using assms r by (simp add: setPropertiesFromCamera_alt yaw_unbounded_def setFloat_inside)
  then show "0 \<le> fvalue (yaw_property (setPropertiesFromCamera E c s))"
    and "fvalue (yaw_property (setPropertiesFromCamera E c s)) < 2 * pi"
    using r by simp_all
qed

lemma mapAngleTo0_2Pi_seven: "mapAngleTo0_2Pi 7 = 7 - 2 * pi"
proof -
  have "\<lfloor>7 / (2 * pi)\<rfloor> = 1"
    using pi_gt pi_lt by (simp add: floor_eq_iff pos_le_divide_eq pos_divide_less_eq)
  then show ?thesis by (simp add: mapAngleTo0_2Pi_def)
qed

lemma yaw_example:
  assumes "yaw_unbounded s" "fvalue (yaw_property s) = 6"
  shows "fvalue (yaw_property (yaw 1 s)) = 7 - 2 * pi"
    and "0.7168 < fvalue (yaw_property (yaw 1 s))" and "fvalue (yaw_property (yaw 1 s)) < 0.7169"
proof -
  show a: "fvalue (yaw_property (yaw 1 s)) = 7 - 2 * pi"
    using yaw_wraps(1) [OF assms(1), of 1] assms(2) by (simp add: mapAngleTo0_2Pi_seven)
  show "0.7168 < fvalue (yaw_property (yaw 1 s))" "fvalue (yaw_property (yaw 1 s)) < 0.7169"
    unfolding a using pi_gt pi_lt by simp_all
qed

lemma ogre_getYaw_tilted: "ogre_getYaw tilted_frame = - arcsin (24 / 25)"
proof -
  have "ogre_getYaw tilted_frame = arcsin (- (24 / 25))"
    by (simp add: ogre_getYaw_def ogre_ASin_def tilted_frame_def)
  then show ?thesis by (simp add: arcsin_minus)
qed

lemma arcsin_24_25: "0 < arcsin (24 / 25)" "arcsin (24 / 25) \<le> pi / 2"
proof -
  have "arcsin 0 < arcsin (24 / 25 :: real)"
    by (rule arcsin_less_arcsin) simp_all
  then show "0 < arcsin (24 / 25 :: real)" by simp
  show "arcsin (24 / 25 :: real) \<le> pi / 2"
    by (rule arcsin_ubound) simp_all
qed

text \<open>
  C4.  The failing input of the invariant: one \<open>update\<close> of the freshly constructed controller
  in which the lookup returns the unit quaternion \<open>tilted_frame\<close>.  The yaw property then
  holds the native yaw of that quaternion as it is, \<open>- arcsin (24 / 25)\<close>, a negative number:
  \<open>update\<close> does not wrap the yaw that it stores.
\<close>

theorem update_stores_negative_yaw:
  "fvalue (yaw_property
            (update ogre base_update (Some (p, tilted_frame)) (FPSRollViewController cam trk))) =
     - arcsin (24 / 25)
   \<and> - arcsin (24 / 25) < (0 :: real)
   \<and> qw tilted_frame * qw tilted_frame + qx tilted_frame * qx tilted_frame
       + qy tilted_frame * qy tilted_frame + qz tilted_frame * qz tilted_frame = 1"
proof -
  have b: "- FLT_MAX \<le> - arcsin (24 / 25)" "- arcsin (24 / 25) \<le> FLT_MAX"
    using arcsin_24_25 FLT_MAX_big pi_lt by simp_all
  have "yaw_property
            (update ogre base_update (Some (p, tilted_frame)) (FPSRollViewController cam trk)) =
      setFloat (ogre_getYaw tilted_frame) (new_FloatProperty 0)"
    by (simp add: update_def Let_def updateCamera_def FPSRollViewController_def ogre_def)
  then have "fvalue (yaw_property
            (update ogre base_update (Some (p, tilted_frame)) (FPSRollViewController cam trk))) =
     - arcsin (24 / 25)"
    using b by (simp add: ogre_getYaw_tilted setFloat_inside new_FloatProperty_def)
  moreover have "qw tilted_frame * qw tilted_frame + qx tilted_frame * qx tilted_frame
       + qy tilted_frame * qy tilted_frame + qz tilted_frame * qz tilted_frame = 1"
    by (simp add: tilted_frame_def)
  ultimately show ?thesis using arcsin_24_25(1) by simp
qed

subsection \<open>Pitch\<close>

lemma pitch_in_range_setFloat:
  "pitch_in_range s \<Longrightarrow> pitch_in_range (s\<lparr>pitch_property := setFloat v (pitch_property s)\<rparr>)"
  by (auto simp add: pitch_in_range_def setFloat_def clampf_def)

lemma pitch_in_range_pitch: "pitch_in_range s \<Longrightarrow> pitch_in_range (pitch angle s)"
  unfolding pitch_def addFloat_def by (rule pitch_in_range_setFloat)

lemma pitch_in_range_extract:
  "pitch_in_range s \<Longrightarrow> pitch_in_range (setPropertiesFromCamera E c s)"
  by (auto simp add: setPropertiesFromCamera_alt pitch_in_range_def setFloat_def clampf_def)

lemma pitch_in_range_updateCamera [simp]: "pitch_in_range (updateCamera E s) = pitch_in_range s"
  by (simp add: pitch_in_range_def updateCamera_def)

lemma pitch_in_range_camera [simp]: "pitch_in_range (s\<lparr>camera := c\<rparr>) = pitch_in_range s"
  by (simp add: pitch_in_range_def)

lemma pitch_in_range_track [simp]: "pitch_in_range (s\<lparr>track := c\<rparr>) = pitch_in_range s"
  by (simp add: pitch_in_range_def)

lemma pitch_in_range_update:
  "pitch_in_range s \<Longrightarrow> pitch_in_range (update E base_update tf s)"
  by (cases tf) (auto simp add: update_def Let_def pitch_in_range_def setFloat_def clampf_def
      updateCamera_def)

lemma pitch_in_range_handleMouseEvent:
  "pitch_in_range s \<Longrightarrow> pitch_in_range (handleMouseEvent E event s)"
  by (auto simp add: pitch_in_range_def handleMouseEvent_pitch_property addFloat_def
      setFloat_def clampf_def)

lemma pitch_in_range_lookAt: "pitch_in_range s \<Longrightarrow> pitch_in_range (lookAt E look p s)"
  by (simp add: lookAt_def Let_def pitch_in_range_extract)

lemma pitch_in_range_reset: "pitch_in_range s \<Longrightarrow> pitch_in_range (reset E look s)"
  by (simp add: reset_def Let_def pitch_in_range_extract)

lemma pitch_in_range_mimic: "pitch_in_range s \<Longrightarrow> pitch_in_range (mimic E base_mimic c s)"
  by (simp add: mimic_def pitch_in_range_extract)

lemma pitch_in_range_ctor: "pitch_in_range (FPSRollViewController cam trk)"
  using pitch_limits(4,5) by (simp add: pitch_in_range_def ctor_pitch_property)

text \<open>
  C5.  The pitch property stays between \<open>-\<pi>/2 + 0.001\<close> and \<open>\<pi>/2 - 0.001\<close>: the constructor
  installs these bounds, and from a state that has them every method leaves the bounds in
  place and the value between them.  A set or an add stores the value clamped to the bounds,
  so one that would pass a bound is saturated at it; from a pitch of 1.5, \<open>pitch(10)\<close> gives
  exactly \<open>\<pi>/2 - 0.001\<close>.
\<close>

theorem pitch_clamped:
  assumes "pitch_in_range s"
  shows "pitch_in_range (FPSRollViewController cam trk)
   \<and> pitch_in_range (pitch angle s)
   \<and> pitch_in_range (s\<lparr>pitch_property := setFloat v (pitch_property s)\<rparr>)
   \<and> pitch_in_range (setPropertiesFromCamera E c s)
   \<and> pitch_in_range (update E base_update tf s)
   \<and> pitch_in_range (handleMouseEvent E event s)
   \<and> pitch_in_range (reset E look s)
   \<and> pitch_in_range (lookAt E look point s)
   \<and> pitch_in_range (mimic E base_mimic c s)
   \<and> fvalue (pitch_property (pitch angle s)) =
       max PITCH_LIMIT_LOW (min PITCH_LIMIT_HIGH (angle + fvalue (pitch_property s)))
   \<and> fvalue (setFloat v (pitch_property s)) = max PITCH_LIMIT_LOW (min PITCH_LIMIT_HIGH v)
   \<and> (PITCH_LIMIT_HIGH \<le> v \<longrightarrow> fvalue (setFloat v (pitch_property s)) = PITCH_LIMIT_HIGH)
   \<and> (v \<le> PITCH_LIMIT_LOW \<longrightarrow> fvalue (setFloat v (pitch_property s)) = PITCH_LIMIT_LOW)
   \<and> (fvalue (pitch_property s) = 1.5
        \<longrightarrow> fvalue (pitch_property (pitch 10 s)) = PITCH_LIMIT_HIGH)
   \<and> PITCH_LIMIT_HIGH = pi / 2 - 0.001 \<and> PITCH_LIMIT_LOW = - (pi / 2) + 0.001"
proof -
  have lh: "PITCH_LIMIT_LOW < PITCH_LIMIT_HIGH" "PITCH_LIMIT_HIGH < 2"
    using pitch_limits by simp_all
  have b: "fmin (pitch_property s) = PITCH_LIMIT_LOW" "fmax (pitch_property s) = PITCH_LIMIT_HIGH"
    using assms by (simp_all add: pitch_in_range_def)
  have p: "fvalue (pitch_property (pitch angle s)) =
       max PITCH_LIMIT_LOW (min PITCH_LIMIT_HIGH (angle + fvalue (pitch_property s)))" for angle
    by (simp add: pitch_def addFloat_def getFloat_def setFloat_def clampf_def b)
  have f: "fvalue (setFloat v (pitch_property s)) = max PITCH_LIMIT_LOW (min PITCH_LIMIT_HIGH v)"
    by (simp add: setFloat_def clampf_def b)
  have hi: "PITCH_LIMIT_HIGH \<le> v \<longrightarrow> fvalue (setFloat v (pitch_property s)) = PITCH_LIMIT_HIGH"
    unfolding f using lh by simp
  have lo: "v \<le> PITCH_LIMIT_LOW \<longrightarrow> fvalue (setFloat v (pitch_property s)) = PITCH_LIMIT_LOW"
    unfolding f using lh by simp
  have ex: "fvalue (pitch_property s) = 1.5
        \<longrightarrow> fvalue (pitch_property (pitch 10 s)) = PITCH_LIMIT_HIGH"
    unfolding p using lh by simp
  have c: "PITCH_LIMIT_HIGH = pi / 2 - 0.001" "PITCH_LIMIT_LOW = - (pi / 2) + 0.001"
    by (simp_all add: PITCH_LIMIT_HIGH_def PITCH_LIMIT_LOW_def HALF_PI_def)
  show ?thesis
    by (intro conjI pitch_in_range_ctor pitch_in_range_pitch pitch_in_range_setFloat
        pitch_in_range_extract pitch_in_range_update pitch_in_range_handleMouseEvent
        pitch_in_range_reset pitch_in_range_lookAt pitch_in_range_mimic assms p f hi lo ex c)
qed

text \<open>The pitch of 1.5 is reached from the constructed controller by \<open>pitch(1.5)\<close>.\<close>

theorem pitch_clamped_witness:
  "pitch_in_range controller0
   \<and> pitch_in_range (pitch 1.5 controller0)
   \<and> fvalue (pitch_property (pitch 1.5 controller0)) = 1.5
   \<and> fvalue (pitch_property (pitch 10 (pitch 1.5 controller0))) = PITCH_LIMIT_HIGH"
proof -
  have a: "pitch_in_range controller0"
    by (simp add: controller0_def pitch_in_range_ctor)
  have v0: "fvalue (pitch_property controller0) = 0"
    by (simp add: controller0_def ctor_pitch_property)
  note w = pitch_clamped [OF a, of camera0 tracking0 "1.5" 0 ogre camera0 id None middle_press
      "\<lambda>n p c. Quaternion_default" "Vec 0 0 0" id]
  have b: "pitch_in_range (pitch 1.5 controller0)" using w by simp
  have c: "fvalue (pitch_property (pitch 1.5 controller0)) = 1.5"
    using w v0 pitch_limits by simp
  note w' = pitch_clamped [OF b, of camera0 tracking0 10 0 ogre camera0 id None middle_press
      "\<lambda>n p c. Quaternion_default" "Vec 0 0 0" id]
  show ?thesis using a b c w' by simp
qed

subsection \<open>Mouse events\<close>

text \<open>
  C6.  For every mouse event the pose after \<open>handleMouseEvent\<close> is the pose after the one
  action that the event classifies to, followed by the wheel move when the wheel delta is not
  zero.  The action is the rotation \<open>yaw(-dx * 0.005)\<close>, \<open>pitch(dy * 0.005)\<close> exactly when left
  is held without shift; otherwise the pan \<open>move(dx * 0.01, -dy * 0.01, 0)\<close> exactly when
  middle, or left with shift, is held; otherwise \<open>move(0, 0, dy * 0.1)\<close> exactly when right is
  held; otherwise nothing; the wheel move is \<open>move(0, 0, -wheel * 0.01)\<close>.  Here \<open>dx\<close> and \<open>dy\<close>
  are the differences of the event's pointer coordinates and the last ones for a move event,
  and zero for any other event.  The differences and the negations are those of 32-bit
  arithmetic; on an event where none of them overflows they are the ones of the integers.
  The cursor follows the action; camera and tracking state are untouched.
\<close>

theorem handleMouseEvent_dispatch:
  "pose (handleMouseEvent E event s) =
     pose (apply_wheel E neg32 (sint (wheel_delta event))
            (apply_action E neg32 (classify event) (int32 (pointer_dx event))
               (int32 (pointer_dy event)) s))
   \<and> (no_overflow event \<longrightarrow>
        pose (handleMouseEvent E event s) =
          pose (apply_wheel E uminus (sint (wheel_delta event))
                 (apply_action E uminus (classify event) (pointer_dx event) (pointer_dy event)
                    s)))
   \<and> (classify event = Rotate \<longleftrightarrow> left event \<and> \<not> shift event)
   \<and> (classify event = Pan \<longleftrightarrow>
        \<not> (left event \<and> \<not> shift event) \<and> (middle event \<or> (left event \<and> shift event)))
   \<and> (classify event = MoveAlongZ \<longleftrightarrow> \<not> left event \<and> \<not> middle event \<and> right event)
   \<and> (classify event = NoAction \<longleftrightarrow> \<not> left event \<and> \<not> middle event \<and> \<not> right event)
   \<and> cursor (handleMouseEvent E event s) = action_cursor event
   \<and> camera (handleMouseEvent E event s) = camera s
   \<and> track (handleMouseEvent E event s) = track s"
proof -
  have a: "pose (handleMouseEvent E event s) =
     pose (apply_wheel E neg32 (sint (wheel_delta event))
            (apply_action E neg32 (classify event) (int32 (pointer_dx event))
               (int32 (pointer_dy event)) s))"
    by (simp add: handleMouseEvent_pose sint_diff_x sint_diff_y)
  have a': "no_overflow event \<longrightarrow>
        pose (handleMouseEvent E event s) =
          pose (apply_wheel E uminus (sint (wheel_delta event))
                 (apply_action E uminus (classify event) (pointer_dx event) (pointer_dy event)
                    s))"
  proof
    assume n: "no_overflow event"
    have w: "sint (wheel_delta event) < 2 ^ 31"
      using sint_lt [of "wheel_delta event"] by simp
    have "int32 (pointer_dx event) = pointer_dx event"
      "int32 (pointer_dy event) = pointer_dy event"
      "neg32 (pointer_dx event) = - pointer_dx event"
      "neg32 (pointer_dy event) = - pointer_dy event"
      "neg32 (sint (wheel_delta event)) = - sint (wheel_delta event)"
      using n w by (simp_all add: no_overflow_def neg32_def int32_id)
    then show "pose (handleMouseEvent E event s) =
          pose (apply_wheel E uminus (sint (wheel_delta event))
                 (apply_action E uminus (classify event) (pointer_dx event) (pointer_dy event)
                    s))"
      unfolding a by (cases "classify event") (simp_all add: apply_wheel_def apply_action_def)
  qed
  have b: "cursor (handleMouseEvent E event s) = action_cursor event"
    by (simp add: handleMouseEvent_def action_cursor_def classify_def Let_def queueRender_def
        pitch_def yaw_def move_def)
  have c: "camera (handleMouseEvent E event s) = camera s"
    by (simp add: handleMouseEvent_def Let_def queueRender_def pitch_def yaw_def move_def)
  have d: "track (handleMouseEvent E event s) = track s"
    by (simp add: handleMouseEvent_def Let_def queueRender_def pitch_def yaw_def move_def)
  have e1: "classify event = Rotate \<longleftrightarrow> left event \<and> \<not> shift event"
    by (auto simp add: classify_def)
  have e2: "classify event = Pan \<longleftrightarrow>
        \<not> (left event \<and> \<not> shift event) \<and> (middle event \<or> (left event \<and> shift event))"
    by (auto simp add: classify_def)
  have e3: "classify event = MoveAlongZ \<longleftrightarrow> \<not> left event \<and> \<not> middle event \<and> right event"
    by (auto simp add: classify_def)
  have e4: "classify event = NoAction \<longleftrightarrow> \<not> left event \<and> \<not> middle event \<and> \<not> right event"
    by (auto simp add: classify_def)
  show ?thesis by (intro conjI a a' b c d e1 e2 e3 e4)
qed

text \<open>
  The theorem at the Ogre engine, the new controller and a drag with the left button from
  \<open>(3, 4)\<close> to \<open>(5, 7)\<close> with a wheel delta of 120: nothing overflows, and the pose is that of
  the rotation by \<open>dx = 2\<close>, \<open>dy = 3\<close> followed by the wheel move.
\<close>

theorem handleMouseEvent_dispatch_witness:
  "no_overflow left_drag
   \<and> classify left_drag = Rotate \<and> pointer_dx left_drag = 2 \<and> pointer_dy left_drag = 3
   \<and> pose (handleMouseEvent ogre left_drag controller0) =
       pose (move ogre 0 0 (- 120 * 0.01) (pitch (3 * 0.005) (yaw (- 2 * 0.005) controller0)))"
proof -
  have e: "classify left_drag = Rotate" "pointer_dx left_drag = 2" "pointer_dy left_drag = 3"
    "sint (wheel_delta left_drag) = 120"
    by (simp_all add: left_drag_def classify_def pointer_dx_def pointer_dy_def)
  have n: "no_overflow left_drag"
    by (simp add: no_overflow_def e)
  note w = handleMouseEvent_dispatch [of ogre left_drag controller0,
      THEN conjunct2, THEN conjunct1, THEN mp, OF n]
  show ?thesis
    using w n e by (simp add: apply_wheel_def apply_action_def)
qed

text \<open>
  C7, as amended.  For an engine that rotates the zero vector to itself, \<open>handleMouseEvent\<close>
  requests a render exactly when the event is a pointer move or its wheel delta is not zero.
  A call whose button-driven action reduces to \<open>move(0, 0, 0)\<close> and whose wheel delta is zero
  leaves the position property unchanged; the render request is suppressed when moreover the
  event is not a pointer move.
\<close>

theorem handleMouseEvent_render:
  assumes rz: "\<And>q. qrotate E q (Vec 0 0 0) = Vec 0 0 0"
  shows "render_requests (handleMouseEvent E event s) =
       (if ev_type event = MouseMove \<or> wheel_delta event \<noteq> 0
        then Suc (render_requests s) else render_requests s)
   \<and> (null_move event \<and> wheel_delta event = 0
        \<longrightarrow> position_property (handleMouseEvent E event s) = position_property s)
   \<and> (ev_type event \<noteq> MouseMove \<and> wheel_delta event = 0
        \<longrightarrow> position_property (handleMouseEvent E event s) = position_property s
            \<and> render_requests (handleMouseEvent E event s) = render_requests s)"
proof -
  have a: "null_move event \<and> wheel_delta event = 0
        \<longrightarrow> position_property (handleMouseEvent E event s) = position_property s"
    by (cases "classify event")
      (simp_all add: null_move_def handleMouseEvent_position apply_wheel_def apply_action_def
        neg32_def int32_def move_zero [OF rz])
  have b: "ev_type event \<noteq> MouseMove \<and> wheel_delta event = 0
        \<longrightarrow> position_property (handleMouseEvent E event s) = position_property s
            \<and> render_requests (handleMouseEvent E event s) = render_requests s"
    using handleMouseEvent_still [OF rz, of event s]
    by (simp add: handleMouseEvent_render_requests diff_x_def diff_y_def)
  show ?thesis by (intro conjI handleMouseEvent_render_requests a b)
qed

text \<open>The theorem at the Ogre engine, a press of the middle button and the new controller.\<close>

theorem handleMouseEvent_render_witness:
  "null_move middle_press \<and> wheel_delta middle_press = 0 \<and> ev_type middle_press \<noteq> MouseMove
   \<and> position_property (handleMouseEvent ogre middle_press controller0) =
       position_property controller0
   \<and> render_requests (handleMouseEvent ogre middle_press controller0) =
       render_requests controller0"
proof -
  have e: "null_move middle_press" "wheel_delta middle_press = 0"
    "ev_type middle_press \<noteq> MouseMove"
    by (simp_all add: middle_press_def null_move_def classify_def diff_x_def diff_y_def)
  show ?thesis
    using handleMouseEvent_render [of ogre middle_press controller0, OF ogre_rotate_zero] e
    by simp
qed

text \<open>
  C7 as stated fails: a drag to the right with the right button held is a pointer move whose
  action is \<open>move(0, 0, 0)\<close> and whose wheel delta is zero; the position stays, and yet a
  render is requested.
\<close>

theorem null_move_still_renders:
  "null_move right_drag_sideways \<and> wheel_delta right_drag_sideways = 0
   \<and> position_property (handleMouseEvent ogre right_drag_sideways controller0) =
       position_property controller0
   \<and> render_requests (handleMouseEvent ogre right_drag_sideways controller0) =
       Suc (render_requests controller0)"
proof -
  have e: "null_move right_drag_sideways" "wheel_delta right_drag_sideways = 0"
    "diff_y right_drag_sideways = 0" "classify right_drag_sideways = MoveAlongZ"
    "ev_type right_drag_sideways = MouseMove"
    by (simp_all add: right_drag_sideways_def null_move_def classify_def diff_x_def diff_y_def)
  have "position_property (handleMouseEvent ogre right_drag_sideways controller0) =
       position_property controller0"
    using handleMouseEvent_still [of ogre right_drag_sideways controller0] e
    by (simp add: ogre_rotate_zero)
  then show ?thesis using e by (simp add: handleMouseEvent_render_requests)
qed

text \<open>
  C10.  For an engine that rotates the zero vector to itself and a controller whose property
  values lie within their bounds, an event that is not a pointer move and has a zero wheel
  delta requests no render and leaves the position, pitch and roll properties, the camera and
  the tracking state unchanged; the yaw property is unchanged when its value lies in
  \<open>[0, 2\<pi>)\<close>.  Only the status text and the cursor are set.
\<close>

theorem handleMouseEvent_idle:
  assumes rz: "\<And>q. qrotate E q (Vec 0 0 0) = Vec 0 0 0"
    and ev: "ev_type event \<noteq> MouseMove" "wheel_delta event = 0"
    and v: "valid s"
  shows "render_requests (handleMouseEvent E event s) = render_requests s
   \<and> position_property (handleMouseEvent E event s) = position_property s
   \<and> pitch_property (handleMouseEvent E event s) = pitch_property s
   \<and> roll_property (handleMouseEvent E event s) = roll_property s
   \<and> (0 \<le> fvalue (yaw_property s) \<and> fvalue (yaw_property s) < 2 * pi
        \<longrightarrow> yaw_property (handleMouseEvent E event s) = yaw_property s)
   \<and> camera (handleMouseEvent E event s) = camera s
   \<and> track (handleMouseEvent E event s) = track s
   \<and> status (handleMouseEvent E event s) = (if shift event then status_shift else status_plain)
   \<and> cursor (handleMouseEvent E event s) =
       (if left event \<and> \<not> shift event then Rotate3D
        else if middle event \<or> (shift event \<and> left event) then MoveXY
        else if right event then MoveZ
        else if shift event then MoveXY else Rotate3D)"
proof -
  have d: "diff_x event = 0" "diff_y event = 0"
    using ev(1) by (simp_all add: diff_x_def diff_y_def)
  have r: "render_requests (handleMouseEvent E event s) = render_requests s"
    using ev by (simp add: handleMouseEvent_render_requests)
  have p: "position_property (handleMouseEvent E event s) = position_property s"
    using handleMouseEvent_still [OF rz ev(2) d(2)] d(1) by simp
  have pi: "pitch_property (handleMouseEvent E event s) = pitch_property s"
    using v d by (simp add: handleMouseEvent_pitch_property addFloat_def getFloat_def
        setFloat_same valid_def)
  have y: "0 \<le> fvalue (yaw_property s) \<and> fvalue (yaw_property s) < 2 * pi
        \<longrightarrow> yaw_property (handleMouseEvent E event s) = yaw_property s"
    using v d by (simp add: handleMouseEvent_yaw_property yaw_zero valid_def)
  have c: "camera (handleMouseEvent E event s) = camera s"
    by (simp add: handleMouseEvent_def Let_def queueRender_def)
  have t: "track (handleMouseEvent E event s) = track s"
    by (simp add: handleMouseEvent_def Let_def queueRender_def)
  have cu: "cursor (handleMouseEvent E event s) =
       (if left event \<and> \<not> shift event then Rotate3D
        else if middle event \<or> (shift event \<and> left event) then MoveXY
        else if right event then MoveZ
        else if shift event then MoveXY else Rotate3D)"
    by (simp add: handleMouseEvent_def Let_def queueRender_def)
  show ?thesis
    by (intro conjI r p pi y c t cu handleMouseEvent_roll_property handleMouseEvent_status)
qed

text \<open>The theorem at the Ogre engine, a press of the left button and the new controller.\<close>

theorem handleMouseEvent_idle_witness:
  "ev_type left_press \<noteq> MouseMove \<and> wheel_delta left_press = 0 \<and> valid controller0
   \<and> left left_press \<and> \<not> shift left_press
   \<and> render_requests (handleMouseEvent ogre left_press controller0) = render_requests controller0
   \<and> position_property (handleMouseEvent ogre left_press controller0) =
       position_property controller0
   \<and> pitch_property (handleMouseEvent ogre left_press controller0) = pitch_property controller0
   \<and> yaw_property (handleMouseEvent ogre left_press controller0) = yaw_property controller0
   \<and> cursor (handleMouseEvent ogre left_press controller0) = Rotate3D"
proof -
  have e: "ev_type left_press \<noteq> MouseMove" "wheel_delta left_press = 0"
    "left left_press" "\<not> shift left_press"
    by (simp_all add: left_press_def)
  show ?thesis
    using handleMouseEvent_idle [of ogre left_press controller0, OF ogre_rotate_zero e(1,2)
        controller0_valid] e controller0_valid controller0_yaw
    by simp
qed

subsection \<open>Update\<close>

text \<open>
  C8.  In a tick whose lookup reports no transform, \<open>update\<close> leaves the roll, yaw, pitch and
  position properties as they are, gives the tracked scene node the stored reference
  orientation, which it does not alter, and recomputes the camera from the properties.  The
  lookup is consulted once; the method returns normally, and nothing of the failure reaches
  the status, the cursor or the render queue.
\<close>

theorem update_without_transform:
  "roll_property (update E base_update None s) = roll_property s
   \<and> yaw_property (update E base_update None s) = yaw_property s
   \<and> pitch_property (update E base_update None s) = pitch_property s
   \<and> position_property (update E base_update None s) = position_property s
   \<and> reference_orientation (track (update E base_update None s)) =
       reference_orientation (base_update (track s))
   \<and> target_scene_node_orientation (track (update E base_update None s)) =
       reference_orientation (base_update (track s))
   \<and> camera (update E base_update None s) =
       \<lparr>cam_position = position_property s,
        cam_orientation = getOrientation E (update E base_update None s)\<rparr>
   \<and> status (update E base_update None s) = status s
   \<and> cursor (update E base_update None s) = cursor s
   \<and> render_requests (update E base_update None s) = render_requests s
   \<and> update E base_update None s =
       updateCamera E (s\<lparr>track := (base_update (track s))
           \<lparr>target_scene_node_orientation := reference_orientation (base_update (track s))\<rparr>\<rparr>)"
  by (simp add: update_def updateCamera_def getOrientation_def Let_def)

end
